theory Spec2Isabelle
  imports Complex_Main
begin

section \<open>JavaScript numbers\<close>

text \<open>
  A JavaScript \<^verbatim>\<open>number\<close> is read as an exact real number, or as one of the three
  values that are not finite. Binary rounding and the sign of zero are not represented:
  arithmetic on finite values is exact, and a zero divisor counts as \<^verbatim>\<open>+0\<close>.
  Every operator below follows the table of the language for the values that are not
  finite, so that a division by zero or a \<^verbatim>\<open>NaN\<close> travels through the code as it
  does in the program.
\<close>

datatype jsnum = Fin real | PInf | NInf | NaN

instantiation jsnum :: "{plus, minus, uminus, times, inverse, abs, ord}"
begin

fun uminus_jsnum :: "jsnum \<Rightarrow> jsnum" where
  "uminus_jsnum (Fin a) = Fin (- a)"
| "uminus_jsnum PInf = NInf"
| "uminus_jsnum NInf = PInf"
| "uminus_jsnum NaN = NaN"

fun plus_jsnum :: "jsnum \<Rightarrow> jsnum \<Rightarrow> jsnum" where
  "plus_jsnum (Fin a) (Fin b) = Fin (a + b)"
| "plus_jsnum NaN _ = NaN"
| "plus_jsnum _ NaN = NaN"
| "plus_jsnum PInf NInf = NaN"
| "plus_jsnum NInf PInf = NaN"
| "plus_jsnum PInf _ = PInf"
| "plus_jsnum _ PInf = PInf"
| "plus_jsnum NInf _ = NInf"
| "plus_jsnum _ NInf = NInf"

definition minus_jsnum :: "jsnum \<Rightarrow> jsnum \<Rightarrow> jsnum" where
  "minus_jsnum x y = x + (- y)"

fun times_jsnum :: "jsnum \<Rightarrow> jsnum \<Rightarrow> jsnum" where
  "times_jsnum (Fin a) (Fin b) = Fin (a * b)"
| "times_jsnum NaN _ = NaN"
| "times_jsnum _ NaN = NaN"
| "times_jsnum (Fin a) PInf = (if a = 0 then NaN else if 0 < a then PInf else NInf)"
| "times_jsnum (Fin a) NInf = (if a = 0 then NaN else if 0 < a then NInf else PInf)"
| "times_jsnum PInf (Fin b) = (if b = 0 then NaN else if 0 < b then PInf else NInf)"
| "times_jsnum NInf (Fin b) = (if b = 0 then NaN else if 0 < b then NInf else PInf)"
| "times_jsnum PInf PInf = PInf"
| "times_jsnum NInf NInf = PInf"
| "times_jsnum PInf NInf = NInf"
| "times_jsnum NInf PInf = NInf"

fun divide_jsnum :: "jsnum \<Rightarrow> jsnum \<Rightarrow> jsnum" where
  "divide_jsnum (Fin a) (Fin b) =
     (if b \<noteq> 0 then Fin (a / b)
      else if a = 0 then NaN else if 0 < a then PInf else NInf)"
| "divide_jsnum NaN _ = NaN"
| "divide_jsnum _ NaN = NaN"
| "divide_jsnum (Fin a) _ = Fin 0"
| "divide_jsnum PInf (Fin b) = (if 0 \<le> b then PInf else NInf)"
| "divide_jsnum NInf (Fin b) = (if 0 \<le> b then NInf else PInf)"
| "divide_jsnum _ _ = NaN"

definition inverse_jsnum :: "jsnum \<Rightarrow> jsnum" where
  "inverse_jsnum x = divide (Fin 1) x"

fun abs_jsnum :: "jsnum \<Rightarrow> jsnum" where
  "abs_jsnum (Fin a) = Fin \<bar>a\<bar>"
| "abs_jsnum PInf = PInf"
| "abs_jsnum NInf = PInf"
| "abs_jsnum NaN = NaN"

fun less_jsnum :: "jsnum \<Rightarrow> jsnum \<Rightarrow> bool" where
  "less_jsnum (Fin a) (Fin b) = (a < b)"
| "less_jsnum NaN _ = False"
| "less_jsnum _ NaN = False"
| "less_jsnum _ NInf = False"
| "less_jsnum PInf _ = False"
| "less_jsnum _ _ = True"

fun less_eq_jsnum :: "jsnum \<Rightarrow> jsnum \<Rightarrow> bool" where
  "less_eq_jsnum (Fin a) (Fin b) = (a \<le> b)"
| "less_eq_jsnum NaN _ = False"
| "less_eq_jsnum _ NaN = False"
| "less_eq_jsnum NInf _ = True"
| "less_eq_jsnum _ PInf = True"
| "less_eq_jsnum _ _ = False"

instance ..

end

text \<open>\<^verbatim>\<open>isNaN\<close>, the strict equality \<^verbatim>\<open>===\<close> of two numbers, and the truth value of a
  number in a condition (\<^verbatim>\<open>0\<close> and \<^verbatim>\<open>NaN\<close> are false).\<close>

definition isNaN :: "jsnum \<Rightarrow> bool" where
  "isNaN x = (x = NaN)"

definition strict_eq :: "jsnum \<Rightarrow> jsnum \<Rightarrow> bool" where
  "strict_eq x y = (x \<noteq> NaN \<and> y \<noteq> NaN \<and> x = y)"

definition truthy :: "jsnum \<Rightarrow> bool" where
  "truthy x = (x \<noteq> Fin 0 \<and> x \<noteq> NaN)"

text \<open>\<^verbatim>\<open>Math.round\<close>: the nearest integer, a tie going to the larger one.\<close>

fun Math_round :: "jsnum \<Rightarrow> jsnum" where
  "Math_round (Fin a) = Fin (of_int \<lfloor>a + 1 / 2\<rfloor>)"
| "Math_round x = x"

text \<open>The remainder \<^verbatim>\<open>%\<close>: the quotient is truncated towards zero, so the result has
  the sign of the dividend.\<close>

definition trunc :: "real \<Rightarrow> int" where
  "trunc q = (if 0 \<le> q then \<lfloor>q\<rfloor> else \<lceil>q\<rceil>)"

fun js_rem :: "jsnum \<Rightarrow> jsnum \<Rightarrow> jsnum" where
  "js_rem (Fin a) (Fin b) = (if b = 0 then NaN else Fin (a - b * of_int (trunc (a / b))))"
| "js_rem (Fin a) PInf = Fin a"
| "js_rem (Fin a) NInf = Fin a"
| "js_rem _ _ = NaN"

section \<open>Number to string and back\<close>

text \<open>
  \<^verbatim>\<open>toFixed(f)\<close> takes the integer \<open>n\<close> for which \<open>n / 10^f\<close> is nearest to the
  magnitude (the larger one on a tie), writes its decimal digits, pads them with zeros to
  \<open>f + 1\<close> digits and puts the point before the last \<open>f\<close>. This is the rule of the
  language for magnitudes below \<open>10^21\<close>; from there on the host prints an exponent, which
  is not modelled, and no statement on digits below reaches that size.
\<close>

definition digit_char :: "nat \<Rightarrow> char" where
  "digit_char d = ''0123456789'' ! (d mod 10)"

fun digits :: "nat \<Rightarrow> string" where
  "digits n = (if n < 10 then [digit_char n] else digits (n div 10) @ [digit_char (n mod 10)])"

declare digits.simps [simp del]

definition toFixed_fin :: "real \<Rightarrow> nat \<Rightarrow> string" where
  "toFixed_fin x f =
     (let s = (if x < 0 then ''-'' else '''');
          n = nat \<lfloor>\<bar>x\<bar> * 10 ^ f + 1 / 2\<rfloor>;
          m = digits n;
          m = (if f \<noteq> 0
               then (let m' = (if length m \<le> f then replicate (f + 1 - length m) CHR ''0'' @ m else m);
                         k = length m'
                     in take (k - f) m' @ ''.'' @ drop (k - f) m')
               else m)
      in s @ m)"

fun toFixed :: "jsnum \<Rightarrow> nat \<Rightarrow> string" where
  "toFixed (Fin x) f = toFixed_fin x f"
| "toFixed PInf f = ''Infinity''"
| "toFixed NInf f = ''-Infinity''"
| "toFixed NaN f = ''NaN''"

section \<open>Reading a number from a string\<close>

text \<open>
  \<^verbatim>\<open>parseFloat\<close> skips leading white space and reads the longest prefix that is a
  decimal literal: a sign, then \<^verbatim>\<open>Infinity\<close>, or digits with an optional fraction and
  an optional exponent. With no digit to read the result is \<^verbatim>\<open>NaN\<close>.
\<close>

definition is_digit :: "char \<Rightarrow> bool" where
  "is_digit c = (c \<in> set ''0123456789'')"

definition digit_val :: "char \<Rightarrow> nat" where
  "digit_val c = of_char c - 48"

definition nat_of_digits :: "string \<Rightarrow> nat" where
  "nat_of_digits ds = foldl (\<lambda>a c. 10 * a + digit_val c) 0 ds"

definition is_space :: "char \<Rightarrow> bool" where
  "is_space c = (c \<in> set [CHR '' '', CHR 0x09, CHR 0x0A, CHR 0x0B, CHR 0x0C, CHR 0x0D])"

definition exponent_part :: "string \<Rightarrow> int" where
  "exponent_part r =
     (case r of
        [] \<Rightarrow> 0
      | c # r1 \<Rightarrow>
          if c = CHR ''e'' \<or> c = CHR ''E'' then
            (case r1 of
               [] \<Rightarrow> 0
             | d # r2 \<Rightarrow>
                 if d = CHR ''-'' then - int (nat_of_digits (takeWhile is_digit r2))
                 else if d = CHR ''+'' then int (nat_of_digits (takeWhile is_digit r2))
                 else int (nat_of_digits (takeWhile is_digit r1)))
          else 0)"

definition parse_unsigned :: "string \<Rightarrow> jsnum" where
  "parse_unsigned s =
     (if take 8 s = ''Infinity'' then PInf
      else
        (let ip = takeWhile is_digit s;
             r = dropWhile is_digit s;
             fp = (case r of [] \<Rightarrow> [] | c # r1 \<Rightarrow> if c = CHR ''.'' then takeWhile is_digit r1 else []);
             r = (case r of [] \<Rightarrow> [] | c # r1 \<Rightarrow> if c = CHR ''.'' then dropWhile is_digit r1 else r)
         in if ip = [] \<and> fp = [] then NaN
            else Fin ((real (nat_of_digits ip) + real (nat_of_digits fp) / 10 ^ length fp)
                      * 10 powi exponent_part r)))"

definition parseFloat :: "string \<Rightarrow> jsnum" where
  "parseFloat s =
     (case dropWhile is_space s of
        [] \<Rightarrow> NaN
      | c # r \<Rightarrow>
          if c = CHR ''-'' then - parse_unsigned r
          else if c = CHR ''+'' then parse_unsigned r
          else parse_unsigned (c # r))"

text \<open>
  \<^verbatim>\<open>trim\<close> removes white space at both ends. \<^verbatim>\<open>Number(s)\<close> of a string takes the
  trimmed string as a whole: the empty string is 0, a decimal literal is its value, and
  anything else is \<^verbatim>\<open>NaN\<close>. White space is the ASCII white space; binary, octal and
  hexadecimal literals are not read.
\<close>

definition trim :: "string \<Rightarrow> string" where
  "trim s = rev (dropWhile is_space (rev (dropWhile is_space s)))"

definition strip_sign :: "string \<Rightarrow> string" where
  "strip_sign s = (case s of [] \<Rightarrow> [] | c # r \<Rightarrow> if c = CHR ''-'' \<or> c = CHR ''+'' then r else s)"

definition exponent_ok :: "string \<Rightarrow> bool" where
  "exponent_ok r =
     (case r of
        [] \<Rightarrow> True
      | c # r1 \<Rightarrow> (c = CHR ''e'' \<or> c = CHR ''E'') \<and> strip_sign r1 \<noteq> [] \<and> list_all is_digit (strip_sign r1))"

definition is_numeric_literal :: "string \<Rightarrow> bool" where
  "is_numeric_literal s =
     (let u = strip_sign s
      in u = ''Infinity'' \<or>
         (let ip = takeWhile is_digit u;
              r = dropWhile is_digit u;
              fp = (case r of [] \<Rightarrow> [] | c # r1 \<Rightarrow> if c = CHR ''.'' then takeWhile is_digit r1 else []);
              r = (case r of [] \<Rightarrow> [] | c # r1 \<Rightarrow> if c = CHR ''.'' then dropWhile is_digit r1 else r)
          in (ip \<noteq> [] \<or> fp \<noteq> []) \<and> exponent_ok r))"

definition string_to_number :: "string \<Rightarrow> jsnum" where
  "string_to_number s =
     (let t = trim s
      in if t = [] then Fin 0 else if is_numeric_literal t then parseFloat t else NaN)"

section \<open>EyeTestValidator: helpers\<close>

definition EyeTest_isMultipleOfQuarter :: "jsnum \<Rightarrow> bool" where
  "EyeTest_isMultipleOfQuarter value = strict_eq (js_rem (Math_round (value * Fin 100)) (Fin 25)) (Fin 0)"

definition EyeTest_formatPower :: "jsnum \<Rightarrow> string" where
  "EyeTest_formatPower value =
     (let absValue = \<bar>value\<bar>;
          fixed = toFixed absValue 2;
          sign = (if Fin 0 \<le> value then ''+'' else ''-'');
          formattedValue = (if absValue < Fin 10 then ''0'' @ fixed else fixed)
      in sign @ formattedValue)"

definition validateSPH :: "jsnum \<Rightarrow> string option" where
  "validateSPH value =
     (if \<not> EyeTest_isMultipleOfQuarter value then None
      else if value < Fin (- 60) \<or> Fin 60 < value then None
      else Some (EyeTest_formatPower value))"

definition validateCYL :: "jsnum \<Rightarrow> string option" where
  "validateCYL value =
     (if \<not> EyeTest_isMultipleOfQuarter value then None
      else if value < Fin (- 15) \<or> Fin 15 < value then None
      else Some (EyeTest_formatPower value))"

definition validateAxis :: "jsnum \<Rightarrow> jsnum option" where
  "validateAxis value =
     (if value < Fin 0 \<or> Fin 180 < value then None else Some (Math_round value))"

definition validateADD :: "jsnum \<Rightarrow> string option" where
  "validateADD value =
     (if \<not> EyeTest_isMultipleOfQuarter value then None
      else if value < Fin (1 / 4) \<or> Fin 6 < value then None
      else Some (EyeTest_formatPower value))"

section \<open>Values of a field\<close>

text \<open>
  A field of an input object holds \<^verbatim>\<open>undefined\<close> (also when the key is missing),
  \<^verbatim>\<open>null\<close>, a string or a number. \<open>Number\<close> is the conversion \<^verbatim>\<open>Number(v)\<close>.
\<close>

datatype jsval = Undefined | Null | Str string | Num jsnum

fun Number :: "jsval \<Rightarrow> jsnum" where
  "Number Undefined = NaN"
| "Number Null = Fin 0"
| "Number (Str s) = string_to_number s"
| "Number (Num n) = n"

text \<open>An object is read by key; a value stored in a result object is a string or a number.\<close>

type_synonym object = "string \<Rightarrow> jsval"

datatype cell = S string | N jsnum

section \<open>EyeTestValidator: field validators, transposition, whole prescription\<close>

definition validatePD :: "jsnum \<Rightarrow> jsnum option" where
  "validatePD value =
     (let num = Number (Num value)
      in if \<not> isNaN num \<and> Fin 19 \<le> num \<and> num \<le> Fin 85 then Some num else None)"

definition validateSG :: "jsval \<Rightarrow> jsnum option" where
  "validateSG value =
     (let num = Number value
      in if \<not> isNaN num \<and> Fin 7 \<le> num \<and> num \<le> Fin 50 then Some num else None)"

definition validateVertexDistance :: "jsval \<Rightarrow> jsnum option" where
  "validateVertexDistance value =
     (let num = Number value
      in if \<not> isNaN num \<and> Fin 10 \<le> num \<and> num \<le> Fin 15 then Some num else None)"

text \<open>The object \<^verbatim>\<open>{sph, cyl, axis}\<close> that a transposition returns; \<open>None\<close> is \<^verbatim>\<open>null\<close>.\<close>

record transposed =
  out_sph :: string
  out_cyl :: string
  out_axis :: jsnum

definition transformSphCylAxis :: "jsnum \<Rightarrow> jsnum \<Rightarrow> jsnum \<Rightarrow> transposed option" where
  "transformSphCylAxis sph cyl axis =
     (let sphNum = Number (Num sph);
          cylNum = Number (Num cyl);
          axisNum = Number (Num axis)
      in if \<not> truthy cylNum \<or> cylNum \<le> Fin 0 then None
         else
           (let newCyl = - \<bar>cylNum\<bar>;
                newSph = sphNum + cylNum;
                newAxis = (if Fin 90 < axisNum then axisNum - Fin 90 else axisNum + Fin 90);
                newAxis = (case validateAxis newAxis of Some a \<Rightarrow> a | None \<Rightarrow> newAxis)
            in Some \<lparr>out_sph = EyeTest_formatPower newSph,
                     out_cyl = EyeTest_formatPower newCyl,
                     out_axis = newAxis\<rparr>))"

text \<open>The test \<^verbatim>\<open>v !== null && v !== undefined && v !== ""\<close>.\<close>

definition present :: "jsval \<Rightarrow> bool" where
  "present v = (v \<noteq> Null \<and> v \<noteq> Undefined \<and> v \<noteq> Str [])"

definition checkSphCylAxisCombo :: "jsval \<Rightarrow> jsval \<Rightarrow> jsval \<Rightarrow> bool" where
  "checkSphCylAxisCombo sph cyl axis =
     (let sphValue = (if present sph then Some (Number sph) else None);
          cylValue = (if present cyl then Some (Number cyl) else None);
          axisValue = (if present axis then Some (Number axis) else None);
          hasSph = (sphValue \<noteq> None);
          hasCyl = (case cylValue of None \<Rightarrow> False | Some c \<Rightarrow> \<not> strict_eq c (Fin 0));
          hasAxis = (axisValue \<noteq> None)
      in if hasSph \<and> \<not> hasCyl \<and> \<not> hasAxis then True
         else if hasSph \<and> hasCyl \<and> hasAxis then True
         else if hasCyl \<and> hasAxis then True
         else if \<not> hasSph \<and> \<not> hasCyl \<and> \<not> hasAxis then False
         else False)"

record result =
  valid :: bool
  errors :: "string list"
  formatted :: "string \<rightharpoonup> cell"

text \<open>One step of the whole-prescription check for a field whose validator returns a
  string: \<^verbatim>\<open>if (!r) errors.push(msg); else formatted[key] = r\<close>. The empty string is
  false in a condition, as \<^verbatim>\<open>null\<close> is.\<close>

definition put_string ::
  "string \<Rightarrow> string \<Rightarrow> string option \<Rightarrow> string list \<times> (string \<rightharpoonup> cell) \<Rightarrow> string list \<times> (string \<rightharpoonup> cell)" where
  "put_string key msg r st =
     (case st of (errs, fmt) \<Rightarrow>
        (case r of None \<Rightarrow> (errs @ [msg], fmt)
         | Some s \<Rightarrow> if s = [] then (errs @ [msg], fmt) else (errs, fmt(key \<mapsto> S s))))"

text \<open>The same for a numeric result: \<^verbatim>\<open>if (r === null) errors.push(msg); else formatted[key] = r\<close>.\<close>

definition put_number ::
  "string \<Rightarrow> string \<Rightarrow> jsnum option \<Rightarrow> string list \<times> (string \<rightharpoonup> cell) \<Rightarrow> string list \<times> (string \<rightharpoonup> cell)" where
  "put_number key msg r st =
     (case st of (errs, fmt) \<Rightarrow>
        (case r of None \<Rightarrow> (errs @ [msg], fmt) | Some n \<Rightarrow> (errs, fmt(key \<mapsto> N n))))"

definition combo_message :: string where
  "combo_message = ''CYL and AXIS must be entered together, or both left empty.''"

definition validatePrescription :: "object \<Rightarrow> result" where
  "validatePrescription data =
     (if \<not> checkSphCylAxisCombo (data ''sphere'') (data ''cylinder'') (data ''axis'')
      then \<lparr>valid = False, errors = [combo_message], formatted = Map.empty\<rparr>
      else
        (let st = ([], Map.empty);
             st = (if present (data ''sphere'')
                   then put_string ''sphere''
                          ''SPH must be multiple of 0.25 and between -60.00 and +60.00.''
                          (validateSPH (Number (data ''sphere''))) st
                   else st);
             st = (if present (data ''cylinder'')
                   then put_string ''cylinder''
                          ''CYL must be multiple of 0.25 and between -15.00 and +15.00.''
                          (validateCYL (Number (data ''cylinder''))) st
                   else st);
             st = (if present (data ''axis'')
                   then put_number ''axis'' ''AXIS must be an integer between 0 and 180.''
                          (validateAxis (Number (data ''axis''))) st
                   else st);
             st = (if present (data ''add'')
                   then put_string ''add''
                          ''ADD must be multiple of 0.25 and between +0.25 and +6.00.''
                          (validateADD (Number (data ''add''))) st
                   else st);
             st = (if present (data ''pd'')
                   then put_number ''pd'' ''PD must be an integer between 19 and 85.''
                          (validatePD (Number (data ''pd''))) st
                   else st);
             st = (if present (data ''sg'')
                   then put_number ''sg'' ''SG must be between 7 and 50.''
                          (validateSG (data ''sg'')) st
                   else st);
             st = (if present (data ''vertexDistance'')
                   then put_number ''vertexDistance'' ''Vertex Distance must be between 10 and 15.''
                          (validateVertexDistance (data ''vertexDistance'')) st
                   else st)
         in \<lparr>valid = (length (fst st) = 0), errors = fst st, formatted = snd st\<rparr>))"

section \<open>ContactLensValidator\<close>

definition sphericWithoutVertexDistance :: "jsnum \<Rightarrow> jsnum \<Rightarrow> jsnum" where
  "sphericWithoutVertexDistance sphere vertexDistance =
     sphere / (Fin 1 - (vertexDistance / Fin 1000) * sphere)"

definition sphericalEquivalent :: "jsnum \<Rightarrow> jsnum \<Rightarrow> jsnum" where
  "sphericalEquivalent sphere cylinder = parseFloat (toFixed (sphere + cylinder / Fin 2) 2)"

definition roundToNearestQuarter :: "jsnum \<Rightarrow> jsnum" where
  "roundToNearestQuarter num = Math_round (num * Fin 4) / Fin 4"

definition ContactLens_isMultipleOfQuarter :: "jsnum \<Rightarrow> bool" where
  "ContactLens_isMultipleOfQuarter value = strict_eq (js_rem value (Fin (1 / 4))) (Fin 0)"

definition ContactLens_formatPower :: "jsnum \<Rightarrow> string" where
  "ContactLens_formatPower value =
     (let fixed = toFixed \<bar>value\<bar> 2;
          sign = (if Fin 0 < value then ''+'' else if value < Fin 0 then ''-'' else ''+'')
      in if \<bar>value\<bar> < Fin 10 then sign @ ''0'' @ fixed else sign @ fixed)"

text \<open>\<^verbatim>\<open>String(v)\<close> of a stored string is the string itself; the text of a stored number
  is read back by \<^verbatim>\<open>parseFloat\<close> as the same number.\<close>

definition formatNumberCustom :: "cell \<Rightarrow> string" where
  "formatNumberCustom v =
     (let num = (case v of N n \<Rightarrow> n | S s \<Rightarrow> parseFloat s)
      in if ContactLens_isMultipleOfQuarter num then ContactLens_formatPower num else [])"

definition formatResultToQuarter :: "(string \<rightharpoonup> cell) \<Rightarrow> (string \<rightharpoonup> cell)" where
  "formatResultToQuarter value = (\<lambda>key. map_option (\<lambda>v. S (formatNumberCustom v)) (value key))"

text \<open>
  A field of the input of a conversion: \<^verbatim>\<open>String(data[k] ?? d).trim()\<close>, then
  \<^verbatim>\<open>parseFloat\<close> of it when it is not empty and the number \<open>d\<close> otherwise. A missing or
  \<^verbatim>\<open>null\<close> field gives the text of the default, which reads back as \<open>d\<close>, and the
  text of a number reads back as that number.
\<close>

fun parse_field :: "jsnum \<Rightarrow> jsval \<Rightarrow> jsnum" where
  "parse_field d Undefined = d"
| "parse_field d Null = d"
| "parse_field d (Str s) = (let t = trim s in if t = [] then d else parseFloat t)"
| "parse_field d (Num n) = n"

definition convertToSpheric :: "object \<Rightarrow> (string \<rightharpoonup> cell)" where
  "convertToSpheric data =
     (let sph = parse_field (Fin 0) (data ''SPH'');
          cyl = parse_field (Fin 0) (data ''CY'');
          ax = parse_field (Fin 0) (data ''AX'');
          bv = parse_field (Fin 12) (data ''BV'');
          addValue = parse_field (Fin 0) (data ''ADD'');
          totalSphere = (if \<not> strict_eq \<bar>cyl\<bar> (Fin 0) then sphericalEquivalent sph cyl else sph);
          sphereContactLens =
            (if Fin 4 < \<bar>totalSphere\<bar> then sphericWithoutVertexDistance totalSphere bv
             else totalSphere);
          nearestValue = roundToNearestQuarter sphereContactLens;
          value = [''SPH'' \<mapsto> N nearestValue, ''ADD'' \<mapsto> N addValue];
          value = formatResultToQuarter value;
          value = value(''Exact SPH'' \<mapsto> S (ContactLens_formatPower sphereContactLens));
          value = value(''AX'' \<mapsto> S []);
          value = value(''BV'' \<mapsto> N bv)
      in value)"

definition convertToToric :: "object \<Rightarrow> (string \<rightharpoonup> cell)" where
  "convertToToric data =
     (let sph = parse_field (Fin 0) (data ''SPH'');
          cyl = parse_field (Fin 0) (data ''CY'');
          ax = parse_field (Fin 0) (data ''AX'');
          bv = parse_field (Fin 12) (data ''BV'');
          addValue = parse_field (Fin 0) (data ''ADD'');
          spherPower = sphericWithoutVertexDistance sph bv;
          cylinderPower = sphericWithoutVertexDistance (sph + cyl) bv - spherPower;
          nearestCylinder = roundToNearestQuarter cylinderPower;
          nearestSphere = roundToNearestQuarter spherPower;
          value = [''SPH'' \<mapsto> N nearestSphere, ''CY'' \<mapsto> N nearestCylinder, ''ADD'' \<mapsto> N addValue];
          value = formatResultToQuarter value;
          value = value(''AX'' \<mapsto> S (toFixed ax 0));
          value = value(''Exact SPH'' \<mapsto> S (ContactLens_formatPower spherPower));
          value = value(''Exact CY'' \<mapsto> S (ContactLens_formatPower cylinderPower));
          value = value(''BV'' \<mapsto> N bv)
      in value)"

section \<open>Notions of the specification\<close>

text \<open>An object literal with the listed fields; every other key is \<^verbatim>\<open>undefined\<close>.\<close>

definition obj :: "(string \<times> jsval) list \<Rightarrow> object" where
  "obj kvs k = (case map_of kvs k of Some v \<Rightarrow> v | None \<Rightarrow> Undefined)"

text \<open>\<open>x\<close> is a multiple of 0.25.\<close>

definition multiple_of_quarter :: "real \<Rightarrow> bool" where
  "multiple_of_quarter x = (of_int \<lfloor>x * 4\<rfloor> = x * 4)"

text \<open>\<open>x\<close>, rounded to hundredths, is a multiple of 0.25: \<open>round(x * 100) mod 25 = 0\<close>.\<close>

definition rounds_to_quarter :: "real \<Rightarrow> bool" where
  "rounds_to_quarter x = (\<lfloor>x * 100 + 1 / 2\<rfloor> mod 25 = 0)"

text \<open>Rounding to the nearest integer with a tie going away from zero, and the test
  for a tie (\<open>y\<close> lies halfway between two integers).\<close>

definition round_half_away :: "real \<Rightarrow> int" where
  "round_half_away y = (if y < 0 then - \<lfloor>\<bar>y\<bar> + 1 / 2\<rfloor> else \<lfloor>\<bar>y\<bar> + 1 / 2\<rfloor>)"

definition is_tie :: "real \<Rightarrow> bool" where
  "is_tie y = (of_int \<lfloor>y + 1 / 2\<rfloor> = y + 1 / 2)"

text \<open>Rounding to two decimals, a tie going away from zero.\<close>

definition round2 :: "real \<Rightarrow> real" where
  "round2 x = sgn x * of_int \<lfloor>\<bar>x\<bar> * 100 + 1 / 2\<rfloor> / 100"

text \<open>The pattern \<^verbatim>\<open>^[+-]\d{2}\.\d{2}$\<close>.\<close>

fun power_pattern :: "string \<Rightarrow> bool" where
  "power_pattern [s, a, b, p, c, d] =
     ((s = CHR ''+'' \<or> s = CHR ''-'') \<and> is_digit a \<and> is_digit b \<and> p = CHR ''.'' \<and>
      is_digit c \<and> is_digit d)"
| "power_pattern _ = False"

text \<open>Vertex compensation \<open>D / (1 - (bv / 1000) * D)\<close> on finite values, defined where the
  denominator is not zero.\<close>

definition vertexCompensate :: "real \<Rightarrow> real \<Rightarrow> real" where
  "vertexCompensate D bv = D / (1 - (bv / 1000) * D)"

text \<open>A value \<open>q\<close> is a nearest quarter of \<open>v\<close>: a multiple of 0.25 at distance
  at most 0.125.\<close>

definition nearest_quarter_of :: "real \<Rightarrow> real \<Rightarrow> bool" where
  "nearest_quarter_of v q = (multiple_of_quarter q \<and> \<bar>q - v\<bar> \<le> 1 / 8)"

text \<open>The nearest multiple of 0.25, a tie going up: \<open>round(4 v) / 4\<close> with the rounding
  of \<^verbatim>\<open>Math.round\<close>.\<close>

definition quarter_half_up :: "real \<Rightarrow> real" where
  "quarter_half_up v = of_int \<lfloor>v * 4 + 1 / 2\<rfloor> / 4"

text \<open>The total sphere of a spherical conversion: the spherical equivalent
  \<open>sph + cyl / 2\<close>, rounded to two decimals, when the cylinder is not zero, else the sphere;
  and the power of the contact lens before rounding: compensated when the magnitude of
  the total sphere exceeds 4 diopters.\<close>

definition spec_totalSphere :: "real \<Rightarrow> real \<Rightarrow> real" where
  "spec_totalSphere sph cyl = (if cyl \<noteq> 0 then round2 (sph + cyl / 2) else sph)"

definition spec_sphericPower :: "real \<Rightarrow> real \<Rightarrow> real \<Rightarrow> real" where
  "spec_sphericPower sph cyl bv =
     (let t = spec_totalSphere sph cyl in if 4 < \<bar>t\<bar> then vertexCompensate t bv else t)"

section \<open>Arithmetic on finite numbers\<close>

lemma Fin_minus [simp]: "Fin a - Fin b = Fin (a - b)"
  by (simp add: minus_jsnum_def)

lemma int_rem_zero_iff:
  fixes n :: int
  shows "(real_of_int n = 25 * of_int (trunc (of_int n / 25))) = (n mod 25 = 0)"
proof
  assume "real_of_int n = 25 * of_int (trunc (of_int n / 25))"
  then have "real_of_int n = real_of_int (25 * trunc (of_int n / 25))" by simp
  then have "n = 25 * trunc (of_int n / 25)" by (simp only: of_int_eq_iff)
  then show "n mod 25 = 0" by (metis mod_mult_self1_is_0)
next
  assume "n mod 25 = 0"
  then obtain k where k: "n = 25 * k" by (auto simp: mod_eq_0_iff_dvd)
  have "trunc (of_int n / 25) = k" by (simp add: k trunc_def)
  then show "real_of_int n = 25 * of_int (trunc (of_int n / 25))" by (simp add: k)
qed

lemma EyeTest_isMultipleOfQuarter_Fin:
  "EyeTest_isMultipleOfQuarter (Fin x) = (\<lfloor>x * 100 + 1 / 2\<rfloor> mod 25 = 0)"
  by (simp add: EyeTest_isMultipleOfQuarter_def strict_eq_def int_rem_zero_iff)

lemma EyeTest_isMultipleOfQuarter_not_finite [simp]:
  "\<not> EyeTest_isMultipleOfQuarter PInf" "\<not> EyeTest_isMultipleOfQuarter NInf"
  "\<not> EyeTest_isMultipleOfQuarter NaN"
  by (simp_all add: EyeTest_isMultipleOfQuarter_def strict_eq_def)

lemma multiple_of_quarter_iff: "multiple_of_quarter x = (\<exists>k::int. x = of_int k / 4)"
proof
  assume "multiple_of_quarter x"
  then have "of_int \<lfloor>x * 4\<rfloor> = x * 4" unfolding multiple_of_quarter_def .
  then have "x = of_int \<lfloor>x * 4\<rfloor> / 4" by linarith
  then show "\<exists>k::int. x = of_int k / 4" ..
next
  assume "\<exists>k::int. x = of_int k / 4"
  then obtain k :: int where "x = of_int k / 4" ..
  then have "x * 4 = of_int k" by simp
  then show "multiple_of_quarter x" by (simp only: multiple_of_quarter_def floor_of_int)
qed

lemma trunc_of_int [simp]: "trunc (of_int k) = k"
  by (simp add: trunc_def)

lemma trunc_eq_self_iff: "(of_int (trunc q) = q) = (of_int \<lfloor>q\<rfloor> = q)"
  by (auto simp: trunc_def ceiling_def) (metis floor_of_int of_int_minus minus_minus)+

lemma ContactLens_isMultipleOfQuarter_Fin:
  "ContactLens_isMultipleOfQuarter (Fin x) = multiple_of_quarter x"
proof -
  have "(x - of_int (trunc (x * 4)) / 4 = 0) = (of_int (trunc (x * 4)) = x * 4)"
    by (auto simp: field_simps)
  then show ?thesis
    by (simp add: ContactLens_isMultipleOfQuarter_def strict_eq_def multiple_of_quarter_def
        trunc_eq_self_iff)
qed

lemma formatPower_same: "v \<noteq> NaN \<Longrightarrow> ContactLens_formatPower v = EyeTest_formatPower v"
  by (cases v) (auto simp: ContactLens_formatPower_def EyeTest_formatPower_def Let_def)

section \<open>Digits\<close>

lemma digits_lt10: "n < 10 \<Longrightarrow> digits n = [digit_char n]"
  by (simp add: digits.simps)

lemma digits_ge10: "10 \<le> n \<Longrightarrow> digits n = digits (n div 10) @ [digit_char (n mod 10)]"
  by (subst digits.simps) simp

lemma digits_not_Nil [simp]: "digits n \<noteq> []"
  by (subst digits.simps) simp

lemma digits_2: "10 \<le> n \<Longrightarrow> n < 100 \<Longrightarrow> digits n = [digit_char (n div 10), digit_char (n mod 10)]"
  by (simp add: digits_ge10 digits_lt10)

lemma digit_char_0 [simp]: "digit_char 0 = CHR ''0''"
  by (simp add: digit_char_def)

lemma replicate_two: "replicate 2 c = [c, c]"
  by (simp add: numeral_2_eq_2)

lemma padded_digits:
  "(if length (digits n) \<le> 2 then replicate (2 + 1 - length (digits n)) CHR ''0'' @ digits n else digits n)
   = digits (n div 100) @ [digit_char (n div 10 mod 10), digit_char (n mod 10)]"
proof -
  consider "n < 10" | "10 \<le> n" "n < 100" | "100 \<le> n" by linarith
  then show ?thesis
  proof cases
    case 1
    then have "digits n = [digit_char n]" "n div 100 = 0" "n div 10 = 0" "n mod 10 = n"
      by (simp_all add: digits_lt10)
    then show ?thesis by (simp add: digits_lt10 replicate_two)
  next
    case 2
    then have "digits n = [digit_char (n div 10), digit_char (n mod 10)]" "n div 100 = 0"
       "n div 10 mod 10 = n div 10"
      by (simp_all add: digits_2)
    then show ?thesis by (simp add: digits_lt10)
  next
    case 3
    then have "10 \<le> n" by simp
    then have a: "digits n = digits (n div 10) @ [digit_char (n mod 10)]"
      by (rule digits_ge10)
    from 3 have "10 \<le> n div 10" by simp
    then have b: "digits (n div 10) = digits (n div 10 div 10) @ [digit_char (n div 10 mod 10)]"
      by (rule digits_ge10)
    have c: "n div 10 div 10 = n div 100" by (simp add: div_mult2_eq)
    have "0 < length (digits (n div 100))" by simp
    then have "\<not> length (digits n) \<le> 2"
      by (simp only: a b c length_append list.size)
    then show ?thesis by (simp add: a b c)
  qed
qed


lemma take_drop_last_two:
  "take (length (A @ [a, b]) - 2) (A @ [a, b]) = A" "drop (length (A @ [a, b]) - 2) (A @ [a, b]) = [a, b]"
  by simp_all

lemma toFixed_fin_2:
  "toFixed_fin x 2 =
     (if x < 0 then ''-'' else []) @
     digits (nat \<lfloor>\<bar>x\<bar> * 100 + 1 / 2\<rfloor> div 100) @ ''.'' @
     [digit_char (nat \<lfloor>\<bar>x\<bar> * 100 + 1 / 2\<rfloor> div 10 mod 10),
      digit_char (nat \<lfloor>\<bar>x\<bar> * 100 + 1 / 2\<rfloor> mod 10)]"
proof -
  have "toFixed_fin x 2 =
     (if x < 0 then ''-'' else []) @
     (let m' = (if length (digits (nat \<lfloor>\<bar>x\<bar> * 100 + 1 / 2\<rfloor>)) \<le> 2
                then replicate (2 + 1 - length (digits (nat \<lfloor>\<bar>x\<bar> * 100 + 1 / 2\<rfloor>))) CHR ''0''
                     @ digits (nat \<lfloor>\<bar>x\<bar> * 100 + 1 / 2\<rfloor>)
                else digits (nat \<lfloor>\<bar>x\<bar> * 100 + 1 / 2\<rfloor>))
      in take (length m' - 2) m' @ ''.'' @ drop (length m' - 2) m')"
    by (simp add: toFixed_fin_def Let_def)
  then show ?thesis
    by (simp only: padded_digits Let_def take_drop_last_two)
qed

lemma toFixed_fin_0:
  "toFixed_fin x 0 = (if x < 0 then ''-'' else []) @ digits (nat \<lfloor>\<bar>x\<bar> + 1 / 2\<rfloor>)"
  by (simp add: toFixed_fin_def)


lemma is_digit_digit_char [simp]: "is_digit (digit_char d)"
  unfolding is_digit_def digit_char_def by (rule nth_mem) simp

lemma digit_val_digit_char: "digit_val (digit_char d) = d mod 10"
proof -
  have "d mod 10 = 0 \<or> d mod 10 = 1 \<or> d mod 10 = 2 \<or> d mod 10 = 3 \<or> d mod 10 = 4 \<or>
        d mod 10 = 5 \<or> d mod 10 = 6 \<or> d mod 10 = 7 \<or> d mod 10 = 8 \<or> d mod 10 = 9"
    by presburger
  then show ?thesis
    unfolding digit_char_def digit_val_def by (elim disjE) simp_all
qed


lemma nat_of_digits_snoc: "nat_of_digits (xs @ [c]) = 10 * nat_of_digits xs + digit_val c"
  by (simp add: nat_of_digits_def)

lemma nat_of_digits_digits: "nat_of_digits (digits n) = n"
proof (induction n rule: digits.induct)
  case (1 n)
  show ?case
  proof (cases "n < 10")
    case True
    then show ?thesis by (simp add: digits_lt10 nat_of_digits_def digit_val_digit_char)
  next
    case False
    then have "nat_of_digits (digits (n div 10)) = n div 10" by (rule 1)
    moreover from False have "digits n = digits (n div 10) @ [digit_char (n mod 10)]"
      by (simp add: digits_ge10)
    ultimately show ?thesis by (simp add: nat_of_digits_snoc digit_val_digit_char)
  qed
qed

lemma all_digits_digits: "\<forall>c\<in>set (digits n). is_digit c"
proof (induction n rule: digits.induct)
  case (1 n)
  show ?case
  proof (cases "n < 10")
    case True
    then show ?thesis by (simp add: digits_lt10)
  next
    case False
    then have "\<forall>c\<in>set (digits (n div 10)). is_digit c" by (rule 1)
    moreover from False have "digits n = digits (n div 10) @ [digit_char (n mod 10)]"
      by (simp add: digits_ge10)
    ultimately show ?thesis by simp
  qed
qed


lemma hd_digits_is_digit: "is_digit (hd (digits n))"
  using all_digits_digits [of n] digits_not_Nil [of n] by (cases "digits n") simp_all

lemma not_Infinity: "is_digit c \<Longrightarrow> take 8 (c # cs) \<noteq> ''Infinity''"
  by (auto simp: is_digit_def numeral_eq_Suc)

lemma parse_unsigned_fixed:
  assumes "\<forall>c\<in>set A. is_digit c" and "A \<noteq> []"
  shows "parse_unsigned (A @ ''.'' @ [digit_char d1, digit_char d0]) =
         Fin (real (nat_of_digits A) + real (10 * (d1 mod 10) + d0 mod 10) / 100)"
proof -
  let ?s = "A @ ''.'' @ [digit_char d1, digit_char d0]"
  obtain c cs where A: "A = c # cs" using assms(2) by (cases A) auto
  with assms(1) have "is_digit c" by simp
  then have inf: "take 8 ?s \<noteq> ''Infinity''" unfolding A append_Cons by (rule not_Infinity)
  have nd: "\<not> is_digit CHR ''.''" by (simp add: is_digit_def)
  have tw: "takeWhile is_digit ?s = A"
    using assms(1) nd by (simp add: takeWhile_append2)
  have dw: "dropWhile is_digit ?s = ''.'' @ [digit_char d1, digit_char d0]"
    using assms(1) nd by (simp add: dropWhile_append2)
  have fr: "nat_of_digits [digit_char d1, digit_char d0] = 10 * (d1 mod 10) + d0 mod 10"
    by (simp add: nat_of_digits_def digit_val_digit_char)
  show ?thesis
    unfolding parse_unsigned_def Let_def tw dw using inf assms(2)
    by (simp add: exponent_part_def fr)
qed

lemma not_space_digit: "is_digit c \<Longrightarrow> \<not> is_space c"
  by (auto simp: is_digit_def is_space_def)

lemma not_sign_digit: "is_digit c \<Longrightarrow> c \<noteq> CHR ''-'' \<and> c \<noteq> CHR ''+''"
  by (auto simp: is_digit_def)

lemma parseFloat_digit_first:
  "is_digit c \<Longrightarrow> parseFloat (c # cs) = parse_unsigned (c # cs)"
  by (simp add: parseFloat_def not_space_digit not_sign_digit)

lemma parseFloat_minus_first: "parseFloat (CHR ''-'' # cs) = - parse_unsigned cs"
  by (simp add: parseFloat_def is_space_def)

lemma split_hundreds:
  fixes n :: nat
  shows "real (n div 100) + real (10 * (n div 10 mod 10 mod 10) + n mod 10 mod 10) / 100 = real n / 100"
proof -
  have a: "n div 10 * 10 + n mod 10 = n" by (rule div_mult_mod_eq)
  have "n div 10 div 10 * 10 + n div 10 mod 10 = n div 10" by (rule div_mult_mod_eq)
  moreover have "n div 10 div 10 = n div 100" by (simp add: div_mult2_eq)
  ultimately have b: "n div 100 * 10 + n div 10 mod 10 = n div 10" by simp
  have "real (n div 10) * 10 + real (n mod 10) = real n"
    using a by (metis of_nat_add of_nat_mult of_nat_numeral)
  moreover have "real (n div 100) * 10 + real (n div 10 mod 10) = real (n div 10)"
    using b by (metis of_nat_add of_nat_mult of_nat_numeral)
  ultimately have "real n = 100 * real (n div 100) + 10 * real (n div 10 mod 10) + real (n mod 10)"
    by linarith
  then show ?thesis by simp
qed

lemma round2_cases:
  "round2 x = (if x < 0 then - (of_int \<lfloor>\<bar>x\<bar> * 100 + 1 / 2\<rfloor> / 100)
               else of_int \<lfloor>\<bar>x\<bar> * 100 + 1 / 2\<rfloor> / 100)"
  by (cases "x = 0") (simp_all add: round2_def sgn_if)

lemma parseFloat_toFixed_fin_2: "parseFloat (toFixed_fin x 2) = Fin (round2 x)"
proof -
  define n where "n = nat \<lfloor>\<bar>x\<bar> * 100 + 1 / 2\<rfloor>"
  define body where
    "body = digits (n div 100) @ ''.'' @ [digit_char (n div 10 mod 10), digit_char (n mod 10)]"
  have tf: "toFixed_fin x 2 = (if x < 0 then ''-'' else []) @ body"
    unfolding body_def n_def by (rule toFixed_fin_2)
  have pb: "parse_unsigned body = Fin (real n / 100)"
    unfolding body_def
    using parse_unsigned_fixed [OF all_digits_digits digits_not_Nil, of "n div 100" "n div 10 mod 10" "n mod 10"]
    by (simp only: nat_of_digits_digits split_hundreds)
  obtain c cs where dg: "digits (n div 100) = c # cs" by (cases "digits (n div 100)") simp_all
  have "is_digit c" using hd_digits_is_digit [of "n div 100"] by (simp add: dg)
  then have pos: "parseFloat body = parse_unsigned body"
    unfolding body_def dg append_Cons by (rule parseFloat_digit_first)
  have "0 \<le> \<lfloor>\<bar>x\<bar> * 100 + 1 / 2\<rfloor>" by simp
  then have n: "real n = of_int \<lfloor>\<bar>x\<bar> * 100 + 1 / 2\<rfloor>"
    unfolding n_def by simp
  have r: "round2 x = (if x < 0 then - (real n / 100) else real n / 100)"
    unfolding n by (rule round2_cases)
  show ?thesis
  proof (cases "x < 0")
    case True
    then have "parseFloat (toFixed_fin x 2) = - parse_unsigned body"
      by (simp add: tf parseFloat_minus_first)
    with True show ?thesis by (simp add: pb r)
  next
    case False
    then have "parseFloat (toFixed_fin x 2) = parseFloat body"
      by (simp add: tf)
    with False show ?thesis by (simp add: pos pb r)
  qed
qed

lemma sphericalEquivalent_Fin:
  "sphericalEquivalent (Fin s) (Fin c) = Fin (round2 (s + c / 2))"
  by (simp add: sphericalEquivalent_def parseFloat_toFixed_fin_2)

lemma round2_close: "\<bar>round2 x - x\<bar> \<le> 1 / 200"
proof -
  define k where "k = real_of_int \<lfloor>\<bar>x\<bar> * 100 + 1 / 2\<rfloor> / 100"
  have h: "\<bar>k - \<bar>x\<bar>\<bar> \<le> 1 / 200" unfolding k_def by linarith
  have "round2 x = (if x < 0 then - k else k)" unfolding k_def by (rule round2_cases)
  with h show ?thesis by (cases "x < 0") (auto simp: abs_if split: if_splits)
qed

lemma roundToNearestQuarter_Fin:
  "roundToNearestQuarter (Fin x) = Fin (of_int \<lfloor>x * 4 + 1 / 2\<rfloor> / 4)"
  by (simp add: roundToNearestQuarter_def)

lemma floor_half_neg:
  fixes y :: real
  shows "\<lfloor>y + 1 / 2\<rfloor> = (if is_tie y then 1 - \<lfloor>- y + 1 / 2\<rfloor> else - \<lfloor>- y + 1 / 2\<rfloor>)"
proof (cases "is_tie y")
  case True
  then have "of_int \<lfloor>y + 1 / 2\<rfloor> = y + 1 / 2" unfolding is_tie_def .
  then have "- y + 1 / 2 = 1 - of_int \<lfloor>y + 1 / 2\<rfloor>" by linarith
  then have "- y + 1 / 2 = of_int (1 - \<lfloor>y + 1 / 2\<rfloor>)" by (simp only: of_int_diff of_int_1)
  then have "\<lfloor>- y + 1 / 2\<rfloor> = 1 - \<lfloor>y + 1 / 2\<rfloor>" by (simp only: floor_of_int)
  with True show ?thesis by simp
next
  case False
  define m where "m = \<lfloor>y + 1 / 2\<rfloor>"
  have "of_int m \<noteq> y + 1 / 2" using False unfolding is_tie_def m_def .
  moreover have "of_int m \<le> y + 1 / 2" "y + 1 / 2 < of_int m + 1" unfolding m_def by linarith+
  ultimately have "of_int (- m) \<le> - y + 1 / 2" "- y + 1 / 2 < of_int (- m) + 1" by simp_all
  then have "\<lfloor>- y + 1 / 2\<rfloor> = - m" by (rule floor_unique)
  with False show ?thesis by (simp add: m_def)
qed

section \<open>Validators and formatting on finite numbers\<close>

lemma multiple_rounds: "multiple_of_quarter x \<Longrightarrow> rounds_to_quarter x"
proof -
  assume "multiple_of_quarter x"
  then obtain k :: int where "x = of_int k / 4" unfolding multiple_of_quarter_iff ..
  then have "x * 100 + 1 / 2 = of_int (25 * k) + 1 / 2" by simp
  then have "of_int (25 * k) \<le> x * 100 + 1 / 2" "x * 100 + 1 / 2 < of_int (25 * k) + 1"
    by linarith+
  then have "\<lfloor>x * 100 + 1 / 2\<rfloor> = 25 * k" by (rule floor_unique)
  then show ?thesis by (simp add: rounds_to_quarter_def)
qed

lemma validateSPH_Fin:
  "validateSPH (Fin x) = (if rounds_to_quarter x \<and> - 60 \<le> x \<and> x \<le> 60 then Some (EyeTest_formatPower (Fin x)) else None)"
  by (auto simp: validateSPH_def EyeTest_isMultipleOfQuarter_Fin rounds_to_quarter_def)

lemma formatPower_Fin:
  "EyeTest_formatPower (Fin x) =
     (if 0 \<le> x then ''+'' else ''-'') @ (if \<bar>x\<bar> < 10 then ''0'' else []) @
     digits (nat \<lfloor>\<bar>x\<bar> * 100 + 1 / 2\<rfloor> div 100) @ ''.'' @
     [digit_char (nat \<lfloor>\<bar>x\<bar> * 100 + 1 / 2\<rfloor> div 10 mod 10),
      digit_char (nat \<lfloor>\<bar>x\<bar> * 100 + 1 / 2\<rfloor> mod 10)]"
proof -
  have "toFixed_fin \<bar>x\<bar> 2 = digits (nat \<lfloor>\<bar>x\<bar> * 100 + 1 / 2\<rfloor> div 100) @ ''.'' @
     [digit_char (nat \<lfloor>\<bar>x\<bar> * 100 + 1 / 2\<rfloor> div 10 mod 10),
      digit_char (nat \<lfloor>\<bar>x\<bar> * 100 + 1 / 2\<rfloor> mod 10)]"
    using toFixed_fin_2 [of "\<bar>x\<bar>"] by simp
  then show ?thesis by (simp add: EyeTest_formatPower_def Let_def)
qed

lemma floor_bound_nat:
  fixes y :: real
  assumes "0 \<le> y" "y * 100 + 1 / 2 < real b"
  shows "nat \<lfloor>y * 100 + 1 / 2\<rfloor> < b"
proof -
  have "of_int \<lfloor>y * 100 + 1 / 2\<rfloor> \<le> y * 100 + 1 / 2" by (rule of_int_floor_le)
  with assms(2) have "real_of_int \<lfloor>y * 100 + 1 / 2\<rfloor> < real b" by linarith
  then have "real_of_int \<lfloor>y * 100 + 1 / 2\<rfloor> < real_of_int (int b)" by simp
  then have "\<lfloor>y * 100 + 1 / 2\<rfloor> < int b" by (simp only: of_int_less_iff)
  moreover have "0 \<le> \<lfloor>y * 100 + 1 / 2\<rfloor>" using assms(1) by simp
  ultimately show ?thesis by (simp add: nat_less_iff)
qed

lemma floor_bound_nat_ge:
  fixes y :: real
  assumes "real b \<le> y * 100"
  shows "b \<le> nat \<lfloor>y * 100 + 1 / 2\<rfloor>"
proof -
  have "real_of_int (int b) \<le> y * 100 + 1 / 2" using assms by simp
  then have "int b \<le> \<lfloor>y * 100 + 1 / 2\<rfloor>" by (simp only: le_floor_iff)
  then show ?thesis by simp
qed

lemma is_digit_zero [simp]: "is_digit CHR ''0''"
  by (simp add: is_digit_def)

lemma formatPower_shape_small:
  assumes "\<bar>x\<bar> < 1999 / 200"
  shows "power_pattern (EyeTest_formatPower (Fin x))"
proof -
  define n where "n = nat \<lfloor>\<bar>x\<bar> * 100 + 1 / 2\<rfloor>"
  have "n < 1000" unfolding n_def using assms by (intro floor_bound_nat) simp_all
  then have "n div 100 < 10" by simp
  then have d: "digits (n div 100) = [digit_char (n div 100)]" by (rule digits_lt10)
  have lt: "\<bar>x\<bar> < 10" using assms by simp
  show ?thesis
    unfolding formatPower_Fin n_def [symmetric] d using lt by simp
qed

lemma formatPower_shape_large:
  assumes "10 \<le> \<bar>x\<bar>" "\<bar>x\<bar> < 19999 / 200"
  shows "power_pattern (EyeTest_formatPower (Fin x))"
proof -
  define n where "n = nat \<lfloor>\<bar>x\<bar> * 100 + 1 / 2\<rfloor>"
  have "n < 10000" unfolding n_def using assms by (intro floor_bound_nat) simp_all
  moreover have "1000 \<le> n" unfolding n_def using assms by (intro floor_bound_nat_ge) simp
  ultimately have "10 \<le> n div 100" "n div 100 < 100" by simp_all
  then have d: "digits (n div 100) = [digit_char (n div 100 div 10), digit_char (n div 100 mod 10)]"
    by (rule digits_2)
  have lt: "\<not> \<bar>x\<bar> < 10" using assms by simp
  show ?thesis
    unfolding formatPower_Fin n_def [symmetric] d using lt by simp
qed


text \<open>Between 9.995 and 10 the magnitude is padded although \<^verbatim>\<open>toFixed\<close> has rounded it
  to \<^verbatim>\<open>10.00\<close>: the integer part gets three digits.\<close>

lemma formatPower_slip: "EyeTest_formatPower (Fin (2559 / 256)) = ''+010.00''"
  by (simp add: formatPower_Fin digits_ge10 digits_lt10 digit_char_def)

section \<open>Errors of the whole-prescription check\<close>

lemma put_string_keeps:
  "msg \<noteq> combo_message \<Longrightarrow> combo_message \<notin> set (fst st) \<Longrightarrow>
   combo_message \<notin> set (fst (put_string key msg r st))"
  by (cases st; cases r) (simp_all add: put_string_def)

lemma put_number_keeps:
  "msg \<noteq> combo_message \<Longrightarrow> combo_message \<notin> set (fst st) \<Longrightarrow>
   combo_message \<notin> set (fst (put_number key msg r st))"
  by (cases st; cases r) (simp_all add: put_number_def)

lemma if_keeps:
  "combo_message \<notin> set (fst a) \<Longrightarrow> combo_message \<notin> set (fst b) \<Longrightarrow>
   combo_message \<notin> set (fst (if p then a else b))"
  by simp

lemma messages_differ:
  "''SPH must be multiple of 0.25 and between -60.00 and +60.00.'' \<noteq> combo_message"
  "''CYL must be multiple of 0.25 and between -15.00 and +15.00.'' \<noteq> combo_message"
  "''AXIS must be an integer between 0 and 180.'' \<noteq> combo_message"
  "''ADD must be multiple of 0.25 and between +0.25 and +6.00.'' \<noteq> combo_message"
  "''PD must be an integer between 19 and 85.'' \<noteq> combo_message"
  "''SG must be between 7 and 50.'' \<noteq> combo_message"
  "''Vertex Distance must be between 10 and 15.'' \<noteq> combo_message"
  by (simp_all add: combo_message_def)

lemma combo_passed_no_combo_message:
  assumes "checkSphCylAxisCombo (data ''sphere'') (data ''cylinder'') (data ''axis'')"
  shows "combo_message \<notin> set (errors (validatePrescription data))"
proof -
  have start: "combo_message \<notin> set (fst (([], Map.empty) :: string list \<times> (string \<rightharpoonup> cell)))"
    by simp
  show ?thesis
    unfolding validatePrescription_def Let_def using assms
    by (simp only: if_not_P if_P simp_thms result.simps)
       (intro if_keeps put_string_keeps put_number_keeps messages_differ start)
qed


section \<open>The conversions on finite numbers\<close>

lemma quarter_half_up_nearest: "nearest_quarter_of v (quarter_half_up v)"
proof -
  have "\<bar>of_int \<lfloor>v * 4 + 1 / 2\<rfloor> / 4 - v\<bar> \<le> 1 / 8" by linarith
  moreover have "multiple_of_quarter (of_int \<lfloor>v * 4 + 1 / 2\<rfloor> / 4)"
    unfolding multiple_of_quarter_iff by blast
  ultimately show ?thesis by (simp add: nearest_quarter_of_def quarter_half_up_def)
qed

lemma roundToNearestQuarter_quarter: "roundToNearestQuarter (Fin v) = Fin (quarter_half_up v)"
  by (simp add: roundToNearestQuarter_Fin quarter_half_up_def)

lemma formatNumberCustom_quarter:
  "formatNumberCustom (N (Fin (quarter_half_up v))) = ContactLens_formatPower (Fin (quarter_half_up v))"
  using quarter_half_up_nearest [of v]
  by (simp add: formatNumberCustom_def ContactLens_isMultipleOfQuarter_Fin nearest_quarter_of_def)

lemma sphericWithoutVertexDistance_Fin:
  "bv * D \<noteq> 1000 \<Longrightarrow> sphericWithoutVertexDistance (Fin D) (Fin bv) = Fin (vertexCompensate D bv)"
  by (simp add: sphericWithoutVertexDistance_def vertexCompensate_def)

lemma sphericWithoutVertexDistance_zero_denominator:
  "bv * D = 1000 \<Longrightarrow> sphericWithoutVertexDistance (Fin D) (Fin bv) = (if 0 < D then PInf else NInf)"
  by (auto simp: sphericWithoutVertexDistance_def)

lemma totalSphere_Fin:
  "(if \<not> strict_eq \<bar>Fin cyl\<bar> (Fin 0) then sphericalEquivalent (Fin sph) (Fin cyl) else Fin sph)
   = Fin (spec_totalSphere sph cyl)"
  by (simp add: strict_eq_def sphericalEquivalent_Fin spec_totalSphere_def)

lemma convertToSpheric_fields:
  "convertToSpheric data ''SPH'' = Some (S (formatNumberCustom (N (roundToNearestQuarter
      (let t = (if \<not> strict_eq \<bar>parse_field (Fin 0) (data ''CY'')\<bar> (Fin 0)
                then sphericalEquivalent (parse_field (Fin 0) (data ''SPH'')) (parse_field (Fin 0) (data ''CY''))
                else parse_field (Fin 0) (data ''SPH''))
       in if Fin 4 < \<bar>t\<bar> then sphericWithoutVertexDistance t (parse_field (Fin 12) (data ''BV'')) else t)))))"
  "convertToSpheric data ''Exact SPH'' = Some (S (ContactLens_formatPower
      (let t = (if \<not> strict_eq \<bar>parse_field (Fin 0) (data ''CY'')\<bar> (Fin 0)
                then sphericalEquivalent (parse_field (Fin 0) (data ''SPH'')) (parse_field (Fin 0) (data ''CY''))
                else parse_field (Fin 0) (data ''SPH''))
       in if Fin 4 < \<bar>t\<bar> then sphericWithoutVertexDistance t (parse_field (Fin 12) (data ''BV'')) else t)))"
  "convertToSpheric data ''AX'' = Some (S [])"
  "convertToSpheric data ''BV'' = Some (N (parse_field (Fin 12) (data ''BV'')))"
  "convertToSpheric data ''ADD'' = Some (S (formatNumberCustom (N (parse_field (Fin 0) (data ''ADD'')))))"
  by (simp_all add: convertToSpheric_def Let_def formatResultToQuarter_def)

lemma convertToToric_fields:
  "convertToToric data ''SPH'' = Some (S (formatNumberCustom (N (roundToNearestQuarter
      (sphericWithoutVertexDistance (parse_field (Fin 0) (data ''SPH'')) (parse_field (Fin 12) (data ''BV'')))))))"
  "convertToToric data ''CY'' = Some (S (formatNumberCustom (N (roundToNearestQuarter
      (sphericWithoutVertexDistance (parse_field (Fin 0) (data ''SPH'') + parse_field (Fin 0) (data ''CY''))
         (parse_field (Fin 12) (data ''BV''))
       - sphericWithoutVertexDistance (parse_field (Fin 0) (data ''SPH'')) (parse_field (Fin 12) (data ''BV'')))))))"
  "convertToToric data ''AX'' = Some (S (toFixed (parse_field (Fin 0) (data ''AX'')) 0))"
  "convertToToric data ''Exact SPH'' = Some (S (ContactLens_formatPower
      (sphericWithoutVertexDistance (parse_field (Fin 0) (data ''SPH'')) (parse_field (Fin 12) (data ''BV'')))))"
  "convertToToric data ''Exact CY'' = Some (S (ContactLens_formatPower
      (sphericWithoutVertexDistance (parse_field (Fin 0) (data ''SPH'') + parse_field (Fin 0) (data ''CY''))
         (parse_field (Fin 12) (data ''BV''))
       - sphericWithoutVertexDistance (parse_field (Fin 0) (data ''SPH'')) (parse_field (Fin 12) (data ''BV'')))))"
  "convertToToric data ''BV'' = Some (N (parse_field (Fin 12) (data ''BV'')))"
  by (simp_all add: convertToToric_def Let_def formatResultToQuarter_def)

section \<open>C1: the quarter-diopter check of the two components\<close>

text \<open>
  C1. The claim: for every finite \<open>x\<close>, the quarter-diopter check of both components
  returns true iff \<open>round(x * 100) mod 25 = 0\<close>, so the two helpers agree. The helper of
  \<^verbatim>\<open>EyeTestValidator\<close> is this predicate (lemma \<open>EyeTest_isMultipleOfQuarter_Fin\<close>); the
  helper of \<^verbatim>\<open>ContactLensValidator\<close> tests \<^verbatim>\<open>x % 0.25 === 0\<close>, an exact multiple
  (lemma \<open>ContactLens_isMultipleOfQuarter_Fin\<close>). At \<open>x = 1.00390625\<close> the first accepts
  and the second rejects; so an addition of 2.00390625 is formatted as \<^verbatim>\<open>"+02.00"\<close> by
  \<^verbatim>\<open>validateADD\<close> and left blank by \<^verbatim>\<open>convertToSpheric\<close>.
\<close>

theorem isMultipleOfQuarter_components_disagree:
  "EyeTest_isMultipleOfQuarter (Fin (257 / 256)) \<and> \<not> ContactLens_isMultipleOfQuarter (Fin (257 / 256)) \<and>
   validateADD (Fin (513 / 256)) = Some ''+02.00'' \<and>
   convertToSpheric (obj [(''SPH'', Num (Fin (- 3))), (''ADD'', Num (Fin (513 / 256)))]) ''ADD'' = Some (S [])"
  by (simp add: EyeTest_isMultipleOfQuarter_Fin ContactLens_isMultipleOfQuarter_Fin multiple_of_quarter_def
      validateADD_def formatPower_Fin digits_lt10 digit_char_def convertToSpheric_fields obj_def
      formatNumberCustom_def)

section \<open>C2: transposition\<close>

text \<open>
  C2. For all numbers \<open>sph\<close>, \<open>cyl\<close>, \<open>axis\<close> (a cylinder that is a number, not
  \<^verbatim>\<open>NaN\<close>): \<^verbatim>\<open>transformSphCylAxis\<close> returns \<^verbatim>\<open>null\<close> iff \<open>cyl \<le> 0\<close>; otherwise the
  sphere is \<open>formatPower (sph + cyl)\<close>, the cylinder is \<open>formatPower (- |cyl|)\<close>, and the
  axis is \<open>axis + 90\<close> when \<open>axis \<le> 90\<close> and \<open>axis - 90\<close> when \<open>axis > 90\<close>, passed
  through \<^verbatim>\<open>validateAxis\<close>, the computed value standing when that check fails. In
  particular \<^verbatim>\<open>transformSphCylAxis(-2.00, 1.00, 90)\<close> is
  \<^verbatim>\<open>{sph: "-01.00", cyl: "-01.00", axis: 180}\<close>, and a cylinder of 0 gives \<^verbatim>\<open>null\<close>
  for every sphere and axis.
\<close>

theorem transformSphCylAxis_spec:
  "(cyl \<noteq> NaN \<longrightarrow>
      (transformSphCylAxis sph cyl axis = None) = (cyl \<le> Fin 0) \<and>
      (\<not> cyl \<le> Fin 0 \<longrightarrow>
         transformSphCylAxis sph cyl axis =
           Some \<lparr>out_sph = EyeTest_formatPower (sph + cyl),
                 out_cyl = EyeTest_formatPower (- \<bar>cyl\<bar>),
                 out_axis = (let a = (if axis \<le> Fin 90 then axis + Fin 90 else axis - Fin 90)
                             in case validateAxis a of Some r \<Rightarrow> r | None \<Rightarrow> a)\<rparr>))
   \<and> transformSphCylAxis (Fin (- 2)) (Fin 1) (Fin 90) =
         Some \<lparr>out_sph = ''-01.00'', out_cyl = ''-01.00'', out_axis = Fin 180\<rparr>
   \<and> transformSphCylAxis sph (Fin 0) axis = None"
proof -
  have null: "(transformSphCylAxis sph cyl axis = None) = (cyl \<le> Fin 0)" if "cyl \<noteq> NaN"
    using that by (cases cyl) (auto simp: transformSphCylAxis_def truthy_def Let_def)
  have ax: "(if Fin 90 < axis then axis - Fin 90 else axis + Fin 90) =
            (if axis \<le> Fin 90 then axis + Fin 90 else axis - Fin 90)"
    by (cases axis) (auto simp: minus_jsnum_def)
  have val: "transformSphCylAxis sph cyl axis =
           Some \<lparr>out_sph = EyeTest_formatPower (sph + cyl),
                 out_cyl = EyeTest_formatPower (- \<bar>cyl\<bar>),
                 out_axis = (let a = (if axis \<le> Fin 90 then axis + Fin 90 else axis - Fin 90)
                             in case validateAxis a of Some r \<Rightarrow> r | None \<Rightarrow> a)\<rparr>"
    if "cyl \<noteq> NaN" "\<not> cyl \<le> Fin 0"
    using that unfolding ax [symmetric]
    by (cases cyl) (auto simp: transformSphCylAxis_def truthy_def Let_def)
  have ex: "transformSphCylAxis (Fin (- 2)) (Fin 1) (Fin 90) =
         Some \<lparr>out_sph = ''-01.00'', out_cyl = ''-01.00'', out_axis = Fin 180\<rparr>"
    by (simp add: transformSphCylAxis_def truthy_def Let_def validateAxis_def formatPower_Fin
        digits_lt10 digit_char_def)
  have zero: "transformSphCylAxis sph (Fin 0) axis = None"
    by (simp add: transformSphCylAxis_def truthy_def)
  from null val ex zero show ?thesis by blast
qed

text \<open>The transposition of \<open>-5.00 +2.50 x 100\<close> is \<open>-2.50 -2.50 x 10\<close>.\<close>

theorem transformSphCylAxis_spec_witness:
  "Fin (5 / 2) \<noteq> NaN \<and> \<not> Fin (5 / 2) \<le> Fin 0 \<and>
   transformSphCylAxis (Fin (- 5)) (Fin (5 / 2)) (Fin 100) =
     Some \<lparr>out_sph = ''-02.50'', out_cyl = ''-02.50'', out_axis = Fin 10\<rparr>"
proof -
  have "EyeTest_formatPower (Fin (- (5 / 2))) = ''-02.50''"
    by (simp add: formatPower_Fin digits_lt10 digit_char_def)
  then show ?thesis
    using transformSphCylAxis_spec [of "Fin (5 / 2)" "Fin (- 5)" "Fin 100"]
    by (simp add: validateAxis_def Let_def)
qed

section \<open>C3: conversion to a spherical contact lens\<close>



section \<open>C4: conversion to a toric contact lens\<close>



section \<open>C5: rounding to the nearest quarter\<close>




section \<open>C6: the sphere validator\<close>




section \<open>C7: the combination check comes first\<close>

text \<open>
  C7. \<^verbatim>\<open>validatePrescription\<close> runs the sphere/cylinder/axis combination check first:
  whenever that check fails the result is invalid, its errors are exactly the one
  combination message, and its formatted mapping is empty. The message comes from that
  check only: a record that passes it never carries the message. In particular
  \<^verbatim>\<open>{sphere: -3.5, cylinder: 1.0, axis: null}\<close> is invalid with the combination message
  and nothing formatted.
\<close>

theorem validatePrescription_combo_first:
  "(\<not> checkSphCylAxisCombo (data ''sphere'') (data ''cylinder'') (data ''axis'') \<longrightarrow>
      validatePrescription data = \<lparr>valid = False, errors = [combo_message], formatted = Map.empty\<rparr>)
   \<and> (checkSphCylAxisCombo (data ''sphere'') (data ''cylinder'') (data ''axis'') \<longrightarrow>
      combo_message \<notin> set (errors (validatePrescription data)))
   \<and> validatePrescription (obj [(''sphere'', Num (Fin (- 3.5))), (''cylinder'', Num (Fin 1)), (''axis'', Null)])
       = \<lparr>valid = False, errors = [combo_message], formatted = Map.empty\<rparr>"
proof -
  have a: "validatePrescription data = \<lparr>valid = False, errors = [combo_message], formatted = Map.empty\<rparr>"
    if "\<not> checkSphCylAxisCombo (data ''sphere'') (data ''cylinder'') (data ''axis'')"
    using that by (simp add: validatePrescription_def)
  have "\<not> checkSphCylAxisCombo (Num (Fin (- 3.5))) (Num (Fin 1)) Null"
    by (simp add: checkSphCylAxisCombo_def present_def strict_eq_def)
  then have b: "validatePrescription (obj [(''sphere'', Num (Fin (- 3.5))), (''cylinder'', Num (Fin 1)), (''axis'', Null)])
       = \<lparr>valid = False, errors = [combo_message], formatted = Map.empty\<rparr>"
    by (simp add: validatePrescription_def obj_def)
  from a b combo_passed_no_combo_message show ?thesis by blast
qed

text \<open>An axis with no cylinder fails the check, whatever the other fields hold.\<close>

theorem validatePrescription_combo_first_witness:
  "\<not> checkSphCylAxisCombo (Num (Fin 2)) Undefined (Num (Fin 90)) \<and>
   validatePrescription (obj [(''sphere'', Num (Fin 2)), (''axis'', Num (Fin 90)), (''pd'', Num (Fin 200))])
     = \<lparr>valid = False, errors = [combo_message], formatted = Map.empty\<rparr>"
proof -
  have "\<not> checkSphCylAxisCombo (Num (Fin 2)) Undefined (Num (Fin 90))"
    by (simp add: checkSphCylAxisCombo_def present_def)
  then show ?thesis
    using validatePrescription_combo_first
      [of "obj [(''sphere'', Num (Fin 2)), (''axis'', Num (Fin 90)), (''pd'', Num (Fin 200))]"]
    by (simp add: obj_def)
qed

section \<open>C8: pupillary distance\<close>

text \<open>
  C8. The claim: \<^verbatim>\<open>validatePD(x)\<close> returns \<open>x\<close> iff \<open>x\<close> is an integer in \<open>[19, 85]\<close>
  and \<^verbatim>\<open>null\<close> otherwise, so 65.5 is rejected. The code tests the range only:
  \<^verbatim>\<open>validatePD(65.5)\<close> returns 65.5, and a prescription with this distance is valid,
  although the message of the field asks for an integer.
\<close>

theorem validatePD_accepts_fraction:
  "validatePD (Fin (131 / 2)) = Some (Fin (131 / 2)) \<and>
   valid (validatePrescription (obj [(''sphere'', Num (Fin (- 3.5))), (''pd'', Num (Fin (131 / 2)))])) \<and>
   formatted (validatePrescription (obj [(''sphere'', Num (Fin (- 3.5))), (''pd'', Num (Fin (131 / 2)))])) ''pd''
     = Some (N (Fin (131 / 2)))"
  by (simp add: validatePD_def isNaN_def validatePrescription_def obj_def checkSphCylAxisCombo_def
      present_def put_string_def put_number_def validateSPH_Fin rounds_to_quarter_def Let_def
      formatPower_Fin digits_lt10)

section \<open>C9: the shape of a formatted power\<close>

text \<open>
  The claim C9 reads the output of \<^verbatim>\<open>formatPower\<close> as a sign, exactly two integer
  digits, a point and two decimals for every finite \<open>x\<close>. At \<open>x = 100\<close> both components
  return \<^verbatim>\<open>"+100.00"\<close>, with three integer digits.
\<close>

theorem formatPower_three_digits:
  "EyeTest_formatPower (Fin 100) = ''+100.00'' \<and> ContactLens_formatPower (Fin 100) = ''+100.00'' \<and>
   \<not> power_pattern (EyeTest_formatPower (Fin 100))"
  by (simp add: formatPower_same formatPower_Fin digits_ge10 digits_lt10 digit_char_def)

text \<open>
  C9, amended. For every finite \<open>x\<close> with \<open>|x| < 9.995\<close>, or with \<open>10 \<le> |x| < 99.995\<close>,
  the output of \<^verbatim>\<open>formatPower\<close> in both components matches \<^verbatim>\<open>^[+-]\d{2}\.\d{2}$\<close>. For
  every finite \<open>x\<close> the two components return the same string, and it starts with
  \<^verbatim>\<open>+\<close> for \<open>x \<ge> 0\<close> and with \<^verbatim>\<open>-\<close> for \<open>x < 0\<close>; \<^verbatim>\<open>formatPower(0)\<close> is
  \<^verbatim>\<open>"+00.00"\<close>.
\<close>

theorem formatPower_two_digit_shape:
  "(\<bar>x\<bar> < 1999 / 200 \<or> 10 \<le> \<bar>x\<bar> \<and> \<bar>x\<bar> < 19999 / 200 \<longrightarrow>
      power_pattern (EyeTest_formatPower (Fin x)) \<and> power_pattern (ContactLens_formatPower (Fin x)))
   \<and> ContactLens_formatPower (Fin x) = EyeTest_formatPower (Fin x)
   \<and> hd (EyeTest_formatPower (Fin x)) = (if 0 \<le> x then CHR ''+'' else CHR ''-'')
   \<and> EyeTest_formatPower (Fin 0) = ''+00.00''"
proof -
  have same: "ContactLens_formatPower (Fin x) = EyeTest_formatPower (Fin x)"
    by (rule formatPower_same) simp
  have sign: "hd (EyeTest_formatPower (Fin x)) = (if 0 \<le> x then CHR ''+'' else CHR ''-'')"
    by (simp add: formatPower_Fin)
  have zero: "EyeTest_formatPower (Fin 0) = ''+00.00''"
    by (simp add: formatPower_Fin digits_lt10)
  have "power_pattern (EyeTest_formatPower (Fin x))"
    if "\<bar>x\<bar> < 1999 / 200 \<or> 10 \<le> \<bar>x\<bar> \<and> \<bar>x\<bar> < 19999 / 200"
    using that formatPower_shape_small formatPower_shape_large by blast
  with same sign zero show ?thesis by simp
qed

text \<open>The power \<open>-9.75\<close> is formatted as a sign, two digits, a point and two digits.\<close>

theorem formatPower_two_digit_shape_witness:
  "\<bar>- (39 / 4) :: real\<bar> < 1999 / 200 \<and>
   power_pattern (EyeTest_formatPower (Fin (- (39 / 4)))) \<and>
   ContactLens_formatPower (Fin (- (39 / 4))) = EyeTest_formatPower (Fin (- (39 / 4))) \<and>
   hd (EyeTest_formatPower (Fin (- (39 / 4)))) = CHR ''-''"
  using formatPower_two_digit_shape [of "- (39 / 4)"] by simp

section \<open>C10: a cylinder of zero\<close>

text \<open>
  C10. \<^verbatim>\<open>checkSphCylAxisCombo\<close> treats a cylinder whose numeric value is 0 (the number
  0, or a string that reads as 0) as absent: the check gives what it gives for a
  \<^verbatim>\<open>null\<close> cylinder. So a record with sphere, cylinder 0 and axis all supplied fails
  the check, and \<^verbatim>\<open>validatePrescription\<close> rejects it with the combination error; a
  record with a sphere, cylinder 0 and no axis passes the check.
\<close>

theorem zero_cylinder_counts_as_absent:
  "(present cyl \<and> Number cyl = Fin 0 \<longrightarrow>
      checkSphCylAxisCombo sph cyl axis = checkSphCylAxisCombo sph Null axis)
   \<and> (present sph \<and> present cyl \<and> Number cyl = Fin 0 \<and> present axis \<longrightarrow>
        \<not> checkSphCylAxisCombo sph cyl axis)
   \<and> (present (data ''sphere'') \<and> present (data ''cylinder'') \<and> Number (data ''cylinder'') = Fin 0 \<and>
       present (data ''axis'') \<longrightarrow>
        validatePrescription data = \<lparr>valid = False, errors = [combo_message], formatted = Map.empty\<rparr>)
   \<and> (present sph \<and> present cyl \<and> Number cyl = Fin 0 \<and> \<not> present axis \<longrightarrow>
        checkSphCylAxisCombo sph cyl axis)"
  by (simp add: checkSphCylAxisCombo_def validatePrescription_def strict_eq_def)

text \<open>The record \<^verbatim>\<open>{sphere: -3.5, cylinder: 0, axis: 90}\<close> is rejected; the sphere
  \<open>-3.5\<close> with the cylinder \<^verbatim>\<open>"0.00"\<close> and a \<^verbatim>\<open>null\<close> axis passes the check.\<close>

theorem zero_cylinder_counts_as_absent_witness:
  "validatePrescription (obj [(''sphere'', Num (Fin (- 3.5))), (''cylinder'', Num (Fin 0)), (''axis'', Num (Fin 90))])
     = \<lparr>valid = False, errors = [combo_message], formatted = Map.empty\<rparr>
   \<and> Number (Str ''0.00'') = Fin 0
   \<and> checkSphCylAxisCombo (Num (Fin (- 3.5))) (Str ''0.00'') Null"
proof -
  have z: "Number (Str ''0.00'') = Fin 0"
    by (simp add: string_to_number_def trim_def is_space_def is_numeric_literal_def strip_sign_def
        is_digit_def exponent_ok_def parseFloat_def parse_unsigned_def exponent_part_def
        nat_of_digits_def digit_val_def Let_def)
  have p: "present (Str ''0.00'')" "present (Num (Fin (- 3.5)))" "present (Num (Fin 0))"
    "present (Num (Fin 90))" "\<not> present Null"
    by (simp_all add: present_def)
  show ?thesis
    using z p
      zero_cylinder_counts_as_absent
        [of "Num (Fin 0)" "Num (Fin (- 3.5))" "Num (Fin 90)"
            "obj [(''sphere'', Num (Fin (- 3.5))), (''cylinder'', Num (Fin 0)), (''axis'', Num (Fin 90))]"]
      zero_cylinder_counts_as_absent
        [of "Str ''0.00''" "Num (Fin (- 3.5))" Null "obj []"]
    by (auto simp: obj_def)
qed

end
